theory Spec2Isabelle
  imports Main "HOL-Library.Multiset" "HOL-Library.Signed_Division"
begin

section \<open>bhap.go: statuses and proposals\<close>

text \<open>
  Go's \<^verbatim>\<open>type status string\<close>: a status is any string, and the eight named statuses are
  string constants. A stored value need not be one of them.
\<close>

type_synonym status = string

definition draftStatus :: status where "draftStatus = ''Draft''"
definition deferredStatus :: status where "deferredStatus = ''Deferred''"
definition rejectedStatus :: status where "rejectedStatus = ''Rejected''"
definition discussionStatus :: status where "discussionStatus = ''Discussion''"
definition withdrawnStatus :: status where "withdrawnStatus = ''Withdrawn''"
definition acceptedStatus :: status where "acceptedStatus = ''Accepted''"
definition replacedStatus :: status where "replacedStatus = ''Replaced''"
definition aprilFoolsStatus :: status where "aprilFoolsStatus = ''April Fools''"

definition bhapEntityName :: string where "bhapEntityName = ''BHAP''"

text \<open>
  A \<^verbatim>\<open>*datastore.Key\<close> is a \<open>key option\<close>: \<open>None\<close> is the nil pointer. The key itself is an
  opaque identity of the datastore library, and \<^verbatim>\<open>k.Equal(o)\<close> is equality of identities.
  \<^verbatim>\<open>time.Time\<close> is an integer instant. Go's \<^verbatim>\<open>int\<close> has 64 bits on the platform of the
  application: a value of it is an \<open>int\<close> from \<open>minInt\<close> to \<open>maxInt\<close>, and an addition
  whose result can leave that range wraps around, which \<open>wrapInt\<close> writes out. The counters
  of the page are bounded by the number of votes and the number of users is not negative,
  so the arithmetic of the page stays inside the range.
\<close>

definition maxInt :: int where "maxInt = 2 ^ 63 - 1"
definition minInt :: int where "minInt = - (2 ^ 63)"

definition wrapInt :: "int \<Rightarrow> int" where
  "wrapInt x = (x - minInt) mod 2 ^ 64 + minInt"

type_synonym key = string
type_synonym time = int
type_synonym err = string

definition Equal :: "key option \<Rightarrow> key option \<Rightarrow> bool" where
  "Equal k o' = (k = o')"

record bhap =
  ID :: int
  Title :: string
  LastModified :: time
  Author :: "key option"
  Status :: status
  CreatedDate :: time
  Content :: string

section \<open>bhap.go: datastore queries\<close>

text \<open>
  The datastore is the external store of the application. Of it the model keeps the stored
  entities of kind BHAP, in the store's own order, and whether a query against it fails.
  A query carries the kind, an optional equality filter on the property ID, an optional
  order on ID (the only property the sources filter and sort by) and an optional limit.
\<close>

record datastore =
  stored :: "bhap list"
  fault :: "err option"

datatype direction = Ascending | Descending

record query =
  kind :: string
  filterID :: "int option"
  orderID :: "direction option"
  limit :: "nat option"

definition NewQuery :: "string \<Rightarrow> query" where
  "NewQuery k = \<lparr>kind = k, filterID = None, orderID = None, limit = None\<rparr>"

definition Filter_ID :: "int \<Rightarrow> query \<Rightarrow> query" where
  "Filter_ID i q = q\<lparr>filterID := Some i\<rparr>"

definition Order :: "string \<Rightarrow> query \<Rightarrow> query" where
  "Order p q =
     (if p = ''ID'' then q\<lparr>orderID := Some Ascending\<rparr>
      else if p = ''-ID'' then q\<lparr>orderID := Some Descending\<rparr>
      else q)"

definition Limit :: "nat \<Rightarrow> query \<Rightarrow> query" where
  "Limit n q = q\<lparr>limit := Some n\<rparr>"

definition GetAll :: "datastore \<Rightarrow> query \<Rightarrow> err + bhap list" where
  "GetAll ds q =
     (case fault ds of
        Some e \<Rightarrow> Inl e
      | None \<Rightarrow>
          (let ofKind = (if kind q = bhapEntityName then stored ds else []);
               kept = (case filterID q of None \<Rightarrow> ofKind
                       | Some i \<Rightarrow> filter (\<lambda>b. ID b = i) ofKind);
               ordered = (case orderID q of None \<Rightarrow> kept
                          | Some Ascending \<Rightarrow> sort_key ID kept
                          | Some Descending \<Rightarrow> sort_key (\<lambda>b. - ID b) kept)
           in Inr (case limit q of None \<Rightarrow> ordered | Some n \<Rightarrow> take n ordered)))"

text \<open>Go's zero value \<^verbatim>\<open>bhap{}\<close>.\<close>

definition zeroBHAP :: bhap where
  "zeroBHAP = \<lparr>ID = 0, Title = [], LastModified = 0, Author = None, Status = [],
     CreatedDate = 0, Content = []\<rparr>"

text \<open>The three results of \<^verbatim>\<open>bhapByID\<close> are \<^verbatim>\<open>(output, exists, err)\<close>.\<close>

definition bhapByID :: "datastore \<Rightarrow> int \<Rightarrow> bhap \<times> bool \<times> err option" where
  "bhapByID ds i =
     (case GetAll ds (Limit 1 (Filter_ID i (NewQuery bhapEntityName))) of
        Inl e \<Rightarrow> (zeroBHAP, False, Some e)
      | Inr results \<Rightarrow>
          (case results of
             [] \<Rightarrow> (zeroBHAP, False, None)
           | b # _ \<Rightarrow> (b, True, None)))"

text \<open>
  \<^verbatim>\<open>nextID\<close> returns \<^verbatim>\<open>(int, error)\<close>: the pair of both, the error \<open>None\<close> for nil. Its
  \<^verbatim>\<open>results[0].ID + 1\<close> is an addition of \<^verbatim>\<open>int\<close> and wraps around.
\<close>

definition nextID :: "datastore \<Rightarrow> int \<times> err option" where
  "nextID ds =
     (case GetAll ds (Limit 1 (Order ''-ID'' (NewQuery bhapEntityName))) of
        Inl e \<Rightarrow> (0, Some e)
      | Inr results \<Rightarrow>
          (case results of
             [] \<Rightarrow> (0, None)
           | b # _ \<Rightarrow> (wrapInt (ID b + 1), None)))"

definition allBHAPs :: "datastore \<Rightarrow> bhap list \<times> err option" where
  "allBHAPs ds =
     (case GetAll ds (Order ''ID'' (NewQuery bhapEntityName)) of
        Inl e \<Rightarrow> ([], Some e)
      | Inr results \<Rightarrow> (results, None))"

section \<open>bhap\_page.go: the page of one proposal\<close>

text \<open>
  Go's \<^verbatim>\<open>type optionsMode string\<close> with its seven string constants.
\<close>

type_synonym optionsMode = string

definition notLoggedIn :: optionsMode where "notLoggedIn = ''notLoggedIn''"
definition draftNotAuthor :: optionsMode where "draftNotAuthor = ''draftNotAuthor''"
definition draftAuthor :: optionsMode where "draftAuthor = ''draftAuthor''"
definition discussionAuthor :: optionsMode where "discussionAuthor = ''discussionAuthor''"
definition discussionNoVote :: optionsMode where "discussionNoVote = ''discussionNoVote''"
definition discussionVoted :: optionsMode where "discussionVoted = ''discussionVoted''"
definition finalized :: optionsMode where "finalized = ''finalized''"

text \<open>
  Modelled from the spec: the declarations of the types \<^verbatim>\<open>user\<close> and \<^verbatim>\<open>vote\<close> are not among
  the sources. The handler reads \<^verbatim>\<open>FirstName\<close> and \<^verbatim>\<open>LastName\<close> of a user and \<^verbatim>\<open>Value\<close> of a
  vote, which it compares with statuses; the spec's data model gives a vote its proposal
  and its voter as well.
\<close>

record user =
  FirstName :: string
  LastName :: string

record vote =
  Proposal :: "key option"
  Voter :: "key option"
  Value :: status

text \<open>
  Modelled from the spec: \<^verbatim>\<open>isEditable\<close> is called by the handler and defined in no source
  file. The spec: ``\<^verbatim>\<open>isEditable(status)\<close> is true iff \<^verbatim>\<open>status == Draft\<close>''.
\<close>

definition isEditable :: "status \<Rightarrow> bool" where
  "isEditable s = (s = draftStatus)"

text \<open>
  The filler of the page template. Its field \<^verbatim>\<open>ID\<close> is \<open>ID'\<close> here: \<open>ID\<close> is the field of a
  proposal.
\<close>

record bhapPageFiller =
  LoggedIn :: bool
  FullName :: string
  ID' :: int
  BHAP :: bhap
  SelectedVote :: string
  OptionsMode :: optionsMode
  Editable :: bool
  HTMLContent :: string
  VoteCount :: int
  UserCount :: int
  PercentAccepted :: int
  PercentRejected :: int
  PercentUndecided :: int

text \<open>
  What a request ends in, when it does not show the page: \<^verbatim>\<open>http.Error\<close> with its message
  and status code followed by \<^verbatim>\<open>return\<close>, or a run-time panic of the Go program.
\<close>

datatype failure = HTTPError string nat | Panic string

text \<open>
  The handler looks at one request through calls of functions that are defined elsewhere
  (the router, the datastore, the session, the Markdown renderer). A request is modelled by
  what each of these calls returned, in the order of the calls: a Go pair
  \<^verbatim>\<open>(value, err)\<close> is \<open>Inl err\<close> or \<open>Inr value\<close>.
\<close>

record request =
  got_id :: "err + int"
  got_bhap :: "err + bhap \<times> key option"
  got_html :: string
  got_author :: "err + user"
  got_user :: "err + user \<times> key option"
  got_allVotes :: "err + vote list"
  got_userCount :: "err + int"
  got_usersVote :: "err + vote \<times> key option"

text \<open>\<^verbatim>\<open>if err != nil { http.Error(w, msg, code); return }\<close>, then the rest of the handler.\<close>

definition orError :: "err + 'a \<Rightarrow> failure \<Rightarrow> ('a \<Rightarrow> failure + 'b) \<Rightarrow> failure + 'b" where
  "orError r f rest = (case r of Inl e \<Rightarrow> Inl f | Inr x \<Rightarrow> rest x)"

definition orFail :: "failure + 'a \<Rightarrow> ('a \<Rightarrow> failure + 'b) \<Rightarrow> failure + 'b" where
  "orFail r rest = (case r of Inl f \<Rightarrow> Inl f | Inr x \<Rightarrow> rest x)"

text \<open>The decimal text of an integer, as \<^verbatim>\<open>%v\<close> prints it.\<close>

fun showNat :: "nat \<Rightarrow> string" where
  "showNat n =
     (if n < 10 then [char_of (48 + n)]
      else showNat (n div 10) @ [char_of (48 + n mod 10)])"

definition showInt :: "int \<Rightarrow> string" where
  "showInt i = (if i < 0 then CHR ''-'' # showNat (nat (- i)) else showNat (nat i))"

text \<open>Lines 119 to 140: which options the viewer gets.\<close>

definition determineViewMode ::
    "status \<Rightarrow> key option \<Rightarrow> key option \<Rightarrow> key option \<Rightarrow> optionsMode" where
  "determineViewMode st userKey author usersVoteKey =
     (if userKey = None then notLoggedIn
      else if st = draftStatus then
        (if Equal userKey author then draftAuthor else draftNotAuthor)
      else if st = discussionStatus then
        (if Equal userKey author then discussionAuthor
         else if usersVoteKey = None then discussionNoVote
         else discussionVoted)
      else finalized)"

text \<open>
  Lines 143 to 151: the loop over \<^verbatim>\<open>allVotes\<close>, with the two counters as its state.
\<close>

fun countVotes :: "vote list \<Rightarrow> int \<times> int \<Rightarrow> int \<times> int" where
  "countVotes [] (acc, rej) = (acc, rej)"
| "countVotes (v # vs) (acc, rej) =
     (if Value v = acceptedStatus then countVotes vs (acc + 1, rej)
      else if Value v = rejectedStatus then countVotes vs (acc, rej + 1)
      else countVotes vs (acc, rej))"

text \<open>The three local counters after line 152.\<close>

record breakdown =
  acceptedCount :: int
  rejectedCount :: int
  undecidedCount :: int

definition voteBreakdown :: "vote list \<Rightarrow> int \<Rightarrow> breakdown" where
  "voteBreakdown allVotes userCount =
     (case countVotes allVotes (0, 0) of
        (acc, rej) \<Rightarrow>
          \<lparr>acceptedCount = acc, rejectedCount = rej,
           undecidedCount = userCount - (acc + rej) - 1\<rparr>)"

text \<open>
  Go's \<^verbatim>\<open>/\<close> on \<^verbatim>\<open>int\<close>: a zero divisor is a run-time panic, and the quotient is truncated
  towards zero.
\<close>

definition goDiv :: "int \<Rightarrow> int \<Rightarrow> failure + int" where
  "goDiv x y =
     (if y = 0 then Inl (Panic ''runtime error: integer divide by zero'')
      else Inr (x sdiv y))"

text \<open>Lines 186 to 188: \<^verbatim>\<open>int((count / (userCount - 1)) * 100)\<close>.\<close>

definition percentOf :: "int \<Rightarrow> int \<Rightarrow> failure + int" where
  "percentOf n userCount = orFail (goDiv n (userCount - 1)) (\<lambda>q. Inr (q * 100))"

text \<open>Lines 159 to 171: the text of the viewer's own vote.\<close>

definition selectedVoteOf :: "vote \<Rightarrow> key option \<Rightarrow> failure + string" where
  "selectedVoteOf usersVote usersVoteKey =
     (if usersVoteKey \<noteq> None then
        (if Value usersVote = acceptedStatus then Inr ''ACCEPT''
         else if Value usersVote = rejectedStatus then Inr ''REJECTED''
         else Inl (HTTPError ''Unknown vote type'' 500))
      else Inr [])"

definition serveBHAPPage :: "request \<Rightarrow> failure + bhapPageFiller" where
  "serveBHAPPage r =
     orError (got_id r) (HTTPError ''ID must be an integer'' 400) (\<lambda>id'.
     orError (got_bhap r) (HTTPError ''Failed to load BHAP'' 500) (\<lambda>(loadedBHAP, bhapKey).
     if bhapKey = None then Inl (HTTPError (''No BHAP with ID '' @ showInt id') 404)
     else
     orError (got_author r) (HTTPError ''Failed to load user'' 500) (\<lambda>author.
     orError (got_user r) (HTTPError ''Could not read session'' 500) (\<lambda>(user, userKey).
     orError (got_allVotes r) (HTTPError ''Could not get votes'' 500) (\<lambda>allVotes.
     orError (got_userCount r) (HTTPError ''Could not get user count'' 500) (\<lambda>userCount.
     orError (got_usersVote r) (HTTPError ''Could not read user's vote'' 500)
       (\<lambda>(usersVote, usersVoteKey).
     let mode = determineViewMode (Status loadedBHAP) userKey (Author loadedBHAP) usersVoteKey;
         counts = voteBreakdown allVotes userCount;
         fullName = (if userKey \<noteq> None then FirstName user @ '' '' @ LastName user else [])
     in
     orFail (selectedVoteOf usersVote usersVoteKey) (\<lambda>selectedVote.
     orFail (percentOf (acceptedCount counts) userCount) (\<lambda>percentAccepted.
     orFail (percentOf (rejectedCount counts) userCount) (\<lambda>percentRejected.
     orFail (percentOf (undecidedCount counts) userCount) (\<lambda>percentUndecided.
     Inr \<lparr>LoggedIn = (userKey \<noteq> None),
          FullName = fullName,
          ID' = ID loadedBHAP,
          BHAP = loadedBHAP,
          SelectedVote = selectedVote,
          OptionsMode = mode,
          Editable = isEditable (Status loadedBHAP),
          HTMLContent = got_html r,
          VoteCount = int (length allVotes),
          UserCount = userCount - 1,
          PercentAccepted = percentAccepted,
          PercentRejected = percentRejected,
          PercentUndecided = percentUndecided\<rparr>)))))))))))"

section \<open>Requests and stores to run the model on\<close>

text \<open>
  A vote with the given value, and a request in which every call succeeded: the proposal
  7 of author \<open>author\<close> in the given status, the viewer Carl Dray under the given key (or
  nobody), the votes, the number of users and the viewer's own vote.
\<close>

definition voteOf :: "status \<Rightarrow> vote" where
  "voteOf s = \<lparr>Proposal = Some ''bhap7'', Voter = None, Value = s\<rparr>"

definition proposal7 :: "status \<Rightarrow> bhap" where
  "proposal7 st = \<lparr>ID = 7, Title = ''Tabs'', LastModified = 2, Author = Some ''author'',
     Status = st, CreatedDate = 1, Content = ''text''\<rparr>"

definition pageRequest ::
    "status \<Rightarrow> key option \<Rightarrow> vote list \<Rightarrow> int \<Rightarrow> vote \<times> key option \<Rightarrow> request" where
  "pageRequest st userKey allVotes userCount usersVote =
     \<lparr>got_id = Inr 7,
      got_bhap = Inr (proposal7 st, Some ''bhap7''),
      got_html = ''<p>text</p>'',
      got_author = Inr \<lparr>FirstName = ''Ann'', LastName = ''Bell''\<rparr>,
      got_user = Inr (\<lparr>FirstName = ''Carl'', LastName = ''Dray''\<rparr>, userKey),
      got_allVotes = Inr allVotes,
      got_userCount = Inr userCount,
      got_usersVote = Inr usersVote\<rparr>"

text \<open>The page of such a request, up to the three percentages.\<close>

definition pageOf ::
    "status \<Rightarrow> key option \<Rightarrow> string \<Rightarrow> optionsMode \<Rightarrow> int \<Rightarrow> int \<Rightarrow> int \<times> int \<times> int \<Rightarrow>
     bhapPageFiller" where
  "pageOf st userKey selectedVote mode voteCount userCount pcts =
     \<lparr>LoggedIn = (userKey \<noteq> None),
      FullName = (if userKey \<noteq> None then ''Carl Dray'' else []),
      ID' = 7,
      BHAP = proposal7 st,
      SelectedVote = selectedVote,
      OptionsMode = mode,
      Editable = (st = ''Draft''),
      HTMLContent = ''<p>text</p>'',
      VoteCount = voteCount,
      UserCount = userCount,
      PercentAccepted = fst pcts,
      PercentRejected = fst (snd pcts),
      PercentUndecided = snd (snd pcts)\<rparr>"

definition storeOf :: "int list \<Rightarrow> datastore" where
  "storeOf ids = \<lparr>stored = map (\<lambda>i. (proposal7 draftStatus)\<lparr>ID := i\<rparr>) ids, fault = None\<rparr>"

section \<open>Unfolding the model\<close>

lemmas status_defs = draftStatus_def deferredStatus_def rejectedStatus_def discussionStatus_def
  withdrawnStatus_def acceptedStatus_def replacedStatus_def aprilFoolsStatus_def

lemmas mode_defs = notLoggedIn_def draftNotAuthor_def draftAuthor_def discussionAuthor_def
  discussionNoVote_def discussionVoted_def finalized_def

lemmas handler_defs = serveBHAPPage_def orError_def orFail_def voteBreakdown_def percentOf_def
  goDiv_def selectedVoteOf_def determineViewMode_def Equal_def isEditable_def

lemmas fixture_defs = pageRequest_def voteOf_def proposal7_def pageOf_def

lemmas query_defs = GetAll_def NewQuery_def Order_def Limit_def Filter_ID_def bhapEntityName_def

text \<open>
  Once every call of a request has succeeded and the proposal was found, the handler is
  left with the viewer's own vote, the three divisions and the filler.
\<close>

lemma serveBHAPPage_loaded:
  assumes "got_id r = Inr i" and "got_bhap r = Inr (b, Some k)" and "got_author r = Inr a"
    and "got_user r = Inr (u, uk)" and "got_allVotes r = Inr vs" and "got_userCount r = Inr n"
    and "got_usersVote r = Inr (v, vk)"
  shows "serveBHAPPage r =
     orFail (selectedVoteOf v vk) (\<lambda>selectedVote.
     orFail (percentOf (acceptedCount (voteBreakdown vs n)) n) (\<lambda>percentAccepted.
     orFail (percentOf (rejectedCount (voteBreakdown vs n)) n) (\<lambda>percentRejected.
     orFail (percentOf (undecidedCount (voteBreakdown vs n)) n) (\<lambda>percentUndecided.
     Inr \<lparr>LoggedIn = (uk \<noteq> None),
          FullName = (if uk \<noteq> None then FirstName u @ '' '' @ LastName u else []),
          ID' = ID b,
          BHAP = b,
          SelectedVote = selectedVote,
          OptionsMode = determineViewMode (Status b) uk (Author b) vk,
          Editable = isEditable (Status b),
          HTMLContent = got_html r,
          VoteCount = int (length vs),
          UserCount = n - 1,
          PercentAccepted = percentAccepted,
          PercentRejected = percentRejected,
          PercentUndecided = percentUndecided\<rparr>))))"
  using assms by (simp add: serveBHAPPage_def orError_def Let_def)

text \<open>The loop counts the votes of each of the two values and skips every other vote.\<close>

lemma countVotes_eq:
  "countVotes vs (acc, rej) =
     (acc + int (length (filter (\<lambda>v. Value v = acceptedStatus) vs)),
      rej + int (length (filter (\<lambda>v. Value v = rejectedStatus) vs)))"
proof (induction vs arbitrary: acc rej)
  case Nil
  show ?case by simp
next
  case (Cons v vs)
  have "acceptedStatus \<noteq> rejectedStatus" by (simp add: status_defs)
  with Cons show ?case by auto
qed

section \<open>The vote breakdown\<close>

text \<open>
  C1. The scenario of the spec: a proposal in Discussion, five users, two Accepted votes and
  one Rejected vote. The counters are 2, 1 and 1, and the page shows 4 other users. Each
  percentage is \<^verbatim>\<open>(count / 4) * 100\<close> with Go's integer division, so that the page shows
  0, 0 and 0 where the scenario expects 50, 25 and 25.
\<close>

theorem scenario_counts_and_percentages:
  "voteBreakdown [voteOf acceptedStatus, voteOf acceptedStatus, voteOf rejectedStatus] 5
     = \<lparr>acceptedCount = 2, rejectedCount = 1, undecidedCount = 1\<rparr>
   \<and> percentOf 2 5 = Inr 0 \<and> percentOf 1 5 = Inr 0
   \<and> serveBHAPPage (pageRequest discussionStatus (Some ''carl'')
        [voteOf acceptedStatus, voteOf acceptedStatus, voteOf rejectedStatus] 5
        (voteOf acceptedStatus, Some ''vote1''))
     = Inr (pageOf discussionStatus (Some ''carl'') ''ACCEPT'' discussionVoted 3 4 (0, 0, 0))"
  by (simp add: handler_defs fixture_defs status_defs mode_defs signed_divide_int_def)

text \<open>
  C3. With a single user the divisor \<^verbatim>\<open>userCount - 1\<close> is zero: every percentage is a
  division by zero, and the request ends in Go's run-time panic. No error is returned by
  the handler's own means.
\<close>

theorem single_user_divides_by_zero:
  "percentOf n 1 = Inl (Panic ''runtime error: integer divide by zero'')
   \<and> serveBHAPPage (pageRequest discussionStatus (Some ''carl'') [] 1 (voteOf [], None))
     = Inl (Panic ''runtime error: integer divide by zero'')"
  by (simp add: handler_defs fixture_defs status_defs mode_defs)

text \<open>
  C4. A vote whose value is neither Accepted nor Rejected is skipped by the loop: of three
  users and the votes Maybe and Accepted, the counters are 1, 0 and 1 (the Maybe vote is
  in none of them, and its voter is among the undecided), and the page is shown.
\<close>

theorem unknown_vote_value_is_skipped:
  "voteBreakdown [voteOf ''Maybe'', voteOf acceptedStatus] 3
     = \<lparr>acceptedCount = 1, rejectedCount = 0, undecidedCount = 1\<rparr>
   \<and> serveBHAPPage (pageRequest discussionStatus None
        [voteOf ''Maybe'', voteOf acceptedStatus] 3 (voteOf [], None))
     = Inr (pageOf discussionStatus None [] notLoggedIn 2 2 (0, 0, 0))"
  by (simp add: handler_defs fixture_defs status_defs mode_defs signed_divide_int_def)

text \<open>
  C5. For all votes and more than one user, the three counters add up to the number of
  users without the author, \<^verbatim>\<open>userCount - 1\<close>.
\<close>

theorem counts_add_up:
  "1 < userCount \<Longrightarrow>
   acceptedCount (voteBreakdown allVotes userCount)
     + rejectedCount (voteBreakdown allVotes userCount)
     + undecidedCount (voteBreakdown allVotes userCount) = userCount - 1"
  by (simp add: voteBreakdown_def split: prod.split)

theorem counts_add_up_witness:
  "(1::int) < 5 \<and>
   acceptedCount (voteBreakdown [voteOf acceptedStatus, voteOf ''Maybe'', voteOf rejectedStatus] 5)
     + rejectedCount (voteBreakdown [voteOf acceptedStatus, voteOf ''Maybe'', voteOf rejectedStatus] 5)
     + undecidedCount (voteBreakdown [voteOf acceptedStatus, voteOf ''Maybe'', voteOf rejectedStatus] 5)
     = 4"
  using counts_add_up [of 5 "[voteOf acceptedStatus, voteOf ''Maybe'', voteOf rejectedStatus]"]
  by simp

text \<open>
  C6, as the spec states it, fails: with two users and three votes the undecided counter
  is \<open>-2\<close>, no error is reported, and the page is shown with \<open>-200\<close> as the percentage of
  the undecided.
\<close>

theorem negative_undecided_is_shown:
  "undecidedCount
      (voteBreakdown [voteOf acceptedStatus, voteOf acceptedStatus, voteOf rejectedStatus] 2)
     = - 2
   \<and> serveBHAPPage (pageRequest discussionStatus None
        [voteOf acceptedStatus, voteOf acceptedStatus, voteOf rejectedStatus] 2
        (voteOf [], None))
     = Inr (pageOf discussionStatus None [] notLoggedIn 3 1 (200, 100, - 200))"
  by (simp add: handler_defs fixture_defs status_defs mode_defs signed_divide_int_def)

text \<open>
  C6, amended. When more votes are counted than there are users without the author, the
  undecided counter is neither clamped nor reported: it is the negative difference
  \<^verbatim>\<open>userCount - 1 - acceptedCount - rejectedCount\<close>, and when every call of the request
  succeeded, the viewer's own vote is absent or has one of the two values, and there is
  not exactly one user, the request ends in the page and in no error.
\<close>

theorem negative_undecided_not_reported:
  assumes "got_id r = Inr i" and "got_bhap r = Inr (b, Some k)" and "got_author r = Inr a"
    and "got_user r = Inr (u, uk)" and "got_allVotes r = Inr vs" and "got_userCount r = Inr n"
    and "got_usersVote r = Inr (v, vk)"
    and "vk = None \<or> Value v = acceptedStatus \<or> Value v = rejectedStatus"
    and "n \<noteq> 1"
    and "n - 1 < int (length (filter (\<lambda>w. Value w = acceptedStatus) vs))
           + int (length (filter (\<lambda>w. Value w = rejectedStatus) vs))"
  shows "undecidedCount (voteBreakdown vs n) =
       n - 1 - int (length (filter (\<lambda>w. Value w = acceptedStatus) vs))
         - int (length (filter (\<lambda>w. Value w = rejectedStatus) vs))
     \<and> undecidedCount (voteBreakdown vs n) < 0
     \<and> (\<exists>f. serveBHAPPage r = Inr f)"
proof -
  have "\<exists>s. selectedVoteOf v vk = Inr s"
    using assms(8) by (auto simp add: selectedVoteOf_def)
  then obtain s where s: "selectedVoteOf v vk = Inr s" ..
  have p: "percentOf c n = Inr ((c sdiv (n - 1)) * 100)" for c
    using assms(9) by (simp add: percentOf_def goDiv_def orFail_def)
  have served: "\<exists>f. serveBHAPPage r = Inr f"
    using serveBHAPPage_loaded [OF assms(1-7)] s p by (simp add: orFail_def)
  have diff: "undecidedCount (voteBreakdown vs n) =
       n - 1 - int (length (filter (\<lambda>w. Value w = acceptedStatus) vs))
         - int (length (filter (\<lambda>w. Value w = rejectedStatus) vs))"
    by (simp add: voteBreakdown_def countVotes_eq)
  have "undecidedCount (voteBreakdown vs n) < 0"
    using diff assms(10) by linarith
  with served diff show ?thesis by simp
qed

theorem negative_undecided_not_reported_witness:
  "(3::int) - 1
     < int (length (filter (\<lambda>w. Value w = acceptedStatus)
         [voteOf acceptedStatus, voteOf acceptedStatus, voteOf rejectedStatus]))
       + int (length (filter (\<lambda>w. Value w = rejectedStatus)
         [voteOf acceptedStatus, voteOf acceptedStatus, voteOf rejectedStatus]))
   \<and> undecidedCount
      (voteBreakdown [voteOf acceptedStatus, voteOf acceptedStatus, voteOf rejectedStatus] 3)
     = - 1
   \<and> (\<exists>f. serveBHAPPage (pageRequest discussionStatus (Some ''carl'')
          [voteOf acceptedStatus, voteOf acceptedStatus, voteOf rejectedStatus] 3
          (voteOf rejectedStatus, Some ''vote3'')) = Inr f)"
  using negative_undecided_not_reported
    [where r = "pageRequest discussionStatus (Some ''carl'')
          [voteOf acceptedStatus, voteOf acceptedStatus, voteOf rejectedStatus] 3
          (voteOf rejectedStatus, Some ''vote3'')"
       and i = 7 and b = "proposal7 discussionStatus" and k = "''bhap7''"
       and a = "\<lparr>FirstName = ''Ann'', LastName = ''Bell''\<rparr>"
       and u = "\<lparr>FirstName = ''Carl'', LastName = ''Dray''\<rparr>" and uk = "Some ''carl''"
       and vs = "[voteOf acceptedStatus, voteOf acceptedStatus, voteOf rejectedStatus]"
       and n = 3 and v = "voteOf rejectedStatus" and vk = "Some ''vote3''"]
  by (simp add: pageRequest_def voteOf_def status_defs)

section \<open>The options of the viewer\<close>

lemma modes_distinct:
  "distinct [notLoggedIn, draftAuthor, draftNotAuthor, discussionAuthor, discussionNoVote,
     discussionVoted, finalized]"
  by (simp add: mode_defs)

text \<open>
  C2. For every status, viewer, author and own vote, the mode is one of the seven modes,
  which are seven different values, and each mode is chosen on exactly one condition: not
  logged in, whatever the status; else Draft, split by authorship; else Discussion, split
  by authorship and then by whether the viewer's own vote exists; else finalized.
\<close>

theorem determineViewMode_table:
  "determineViewMode st userKey author usersVoteKey
     \<in> {notLoggedIn, draftAuthor, draftNotAuthor, discussionAuthor, discussionNoVote,
        discussionVoted, finalized}
   \<and> distinct [notLoggedIn, draftAuthor, draftNotAuthor, discussionAuthor, discussionNoVote,
        discussionVoted, finalized]
   \<and> (determineViewMode st userKey author usersVoteKey = notLoggedIn \<longleftrightarrow> userKey = None)
   \<and> (determineViewMode st userKey author usersVoteKey = draftAuthor \<longleftrightarrow>
        userKey \<noteq> None \<and> st = draftStatus \<and> Equal userKey author)
   \<and> (determineViewMode st userKey author usersVoteKey = draftNotAuthor \<longleftrightarrow>
        userKey \<noteq> None \<and> st = draftStatus \<and> \<not> Equal userKey author)
   \<and> (determineViewMode st userKey author usersVoteKey = discussionAuthor \<longleftrightarrow>
        userKey \<noteq> None \<and> st \<noteq> draftStatus \<and> st = discussionStatus \<and> Equal userKey author)
   \<and> (determineViewMode st userKey author usersVoteKey = discussionNoVote \<longleftrightarrow>
        userKey \<noteq> None \<and> st \<noteq> draftStatus \<and> st = discussionStatus
        \<and> \<not> Equal userKey author \<and> usersVoteKey = None)
   \<and> (determineViewMode st userKey author usersVoteKey = discussionVoted \<longleftrightarrow>
        userKey \<noteq> None \<and> st \<noteq> draftStatus \<and> st = discussionStatus
        \<and> \<not> Equal userKey author \<and> usersVoteKey \<noteq> None)
   \<and> (determineViewMode st userKey author usersVoteKey = finalized \<longleftrightarrow>
        userKey \<noteq> None \<and> st \<noteq> draftStatus \<and> st \<noteq> discussionStatus)"
proof -
  have d: "distinct [notLoggedIn, draftAuthor, draftNotAuthor, discussionAuthor,
      discussionNoVote, discussionVoted, finalized]"
    by (rule modes_distinct)
  have s: "draftStatus \<noteq> discussionStatus"
    by (simp add: status_defs)
  from d s show ?thesis
    unfolding determineViewMode_def by auto
qed

text \<open>
  C7. \<^verbatim>\<open>isEditable\<close> holds of a status exactly when it is Draft: it holds of Draft and of
  none of the seven other statuses, and the page of a Draft proposal seen by its author
  has the mode \<^verbatim>\<open>draftAuthor\<close> and is editable.
\<close>

theorem isEditable_iff_draft:
  "isEditable s = (s = draftStatus)
   \<and> isEditable draftStatus \<and> \<not> isEditable deferredStatus \<and> \<not> isEditable rejectedStatus
   \<and> \<not> isEditable discussionStatus \<and> \<not> isEditable withdrawnStatus
   \<and> \<not> isEditable acceptedStatus \<and> \<not> isEditable replacedStatus
   \<and> \<not> isEditable aprilFoolsStatus
   \<and> serveBHAPPage (pageRequest draftStatus (Some ''author'') [] 3 (voteOf [], None))
     = Inr (pageOf draftStatus (Some ''author'') [] draftAuthor 0 2 (0, 0, 100))"
  by (simp add: handler_defs fixture_defs status_defs mode_defs signed_divide_int_def)

text \<open>
  C9. When every call of the request succeeded, the viewer's own vote exists and its value
  is neither Accepted nor Rejected, the request ends in the error ``Unknown vote type''
  with status 500 and no page. The same vote among the votes of the proposal is skipped
  by the count without any error.
\<close>

theorem own_vote_is_validated:
  assumes "got_id r = Inr i" and "got_bhap r = Inr (b, Some k)" and "got_author r = Inr a"
    and "got_user r = Inr (u, uk)" and "got_allVotes r = Inr vs" and "got_userCount r = Inr n"
    and "got_usersVote r = Inr (v, Some vk)"
    and "Value v \<noteq> acceptedStatus" and "Value v \<noteq> rejectedStatus"
  shows "serveBHAPPage r = Inl (HTTPError ''Unknown vote type'' 500)
     \<and> voteBreakdown (v # vs) n = voteBreakdown vs n"
proof -
  have "selectedVoteOf v (Some vk) = Inl (HTTPError ''Unknown vote type'' 500)"
    using assms(8,9) by (simp add: selectedVoteOf_def)
  then have "serveBHAPPage r = Inl (HTTPError ''Unknown vote type'' 500)"
    using serveBHAPPage_loaded [OF assms(1-7)] by (simp add: orFail_def)
  moreover have "voteBreakdown (v # vs) n = voteBreakdown vs n"
    using assms(8,9) by (simp add: voteBreakdown_def)
  ultimately show ?thesis by simp
qed

theorem own_vote_is_validated_witness:
  "Value (voteOf ''Maybe'') \<noteq> acceptedStatus \<and> Value (voteOf ''Maybe'') \<noteq> rejectedStatus
   \<and> serveBHAPPage (pageRequest discussionStatus (Some ''carl'') [voteOf acceptedStatus] 4
        (voteOf ''Maybe'', Some ''vote2''))
     = Inl (HTTPError ''Unknown vote type'' 500)
   \<and> voteBreakdown [voteOf ''Maybe'', voteOf acceptedStatus] 4
     = voteBreakdown [voteOf acceptedStatus] 4"
  using own_vote_is_validated
    [where r = "pageRequest discussionStatus (Some ''carl'') [voteOf acceptedStatus] 4
          (voteOf ''Maybe'', Some ''vote2'')"
       and i = 7 and b = "proposal7 discussionStatus" and k = "''bhap7''"
       and a = "\<lparr>FirstName = ''Ann'', LastName = ''Bell''\<rparr>"
       and u = "\<lparr>FirstName = ''Carl'', LastName = ''Dray''\<rparr>" and uk = "Some ''carl''"
       and vs = "[voteOf acceptedStatus]" and n = 4
       and v = "voteOf ''Maybe''" and vk = "''vote2''"]
  by (simp add: pageRequest_def voteOf_def status_defs)

section \<open>Identifiers and the list of all proposals\<close>

lemma GetAll_descending:
  "fault ds = None \<Longrightarrow>
   GetAll ds (Limit 1 (Order ''-ID'' (NewQuery bhapEntityName)))
     = Inr (take 1 (sort_key (\<lambda>b. - ID b) (stored ds)))"
  by (simp add: query_defs)

lemma GetAll_ascending:
  "fault ds = None \<Longrightarrow>
   GetAll ds (Order ''ID'' (NewQuery bhapEntityName)) = Inr (sort_key ID (stored ds))"
  by (simp add: query_defs)

lemma first_descending_is_Max:
  assumes "sort_key (\<lambda>b. - ID b) xs = y # ys"
  shows "ID y = Max (ID ` set xs)"
proof -
  have "sorted (map (\<lambda>b. - ID b) (y # ys))"
    using assms sorted_sort_key [of "\<lambda>b. - ID b" xs] by simp
  then have le: "\<forall>z \<in> set ys. ID z \<le> ID y"
    by auto
  have mem: "set (y # ys) = set xs"
    using assms set_sort [of "\<lambda>b. - ID b" xs] by simp
  show ?thesis
  proof (rule Max_eqI [symmetric])
    show "finite (ID ` set xs)" by simp
    show "ID y \<in> ID ` set xs" using mem by auto
    fix j assume "j \<in> ID ` set xs"
    then obtain z where "z \<in> set (y # ys)" and "j = ID z" using mem by auto
    then show "j \<le> ID y" using le by auto
  qed
qed

text \<open>
  When the query succeeds, \<^verbatim>\<open>nextID\<close> returns 0 for a store without proposals and
  otherwise the wrapped sum of the greatest stored ID and one.
\<close>

lemma nextID_wrapped:
  "fault ds = None \<Longrightarrow>
   nextID ds = (if stored ds = [] then 0 else wrapInt (Max (ID ` set (stored ds)) + 1), None)"
proof (cases "sort_key (\<lambda>b. - ID b) (stored ds)")
  case Nil
  assume f: "fault ds = None"
  from Nil have "stored ds = []"
    using length_sort [of "\<lambda>b. - ID b" "stored ds"] by simp
  then show ?thesis
    unfolding nextID_def GetAll_descending [OF f] by simp
next
  case (Cons y ys)
  assume f: "fault ds = None"
  from Cons have ne: "stored ds \<noteq> []" by auto
  have "ID y = Max (ID ` set (stored ds))"
    using Cons by (rule first_descending_is_Max)
  then show ?thesis
    unfolding nextID_def GetAll_descending [OF f] using ne Cons by simp
qed

lemma wrapInt_in_range:
  "minInt \<le> x \<Longrightarrow> x \<le> maxInt \<Longrightarrow> wrapInt x = x"
  by (simp add: wrapInt_def minInt_def maxInt_def)

text \<open>
  C8, as the spec states it, fails: when the greatest stored ID is the greatest \<^verbatim>\<open>int\<close>,
  the addition wraps around and \<^verbatim>\<open>nextID\<close> returns the least \<^verbatim>\<open>int\<close>, which is not the
  greatest ID plus one.
\<close>

theorem nextID_wraps_at_maxInt:
  "fault (storeOf [1, 9223372036854775807]) = None
   \<and> Max (ID ` set (stored (storeOf [1, 9223372036854775807]))) + 1 = 9223372036854775808
   \<and> nextID (storeOf [1, 9223372036854775807]) = (- 9223372036854775808, None)"
  by (simp add: storeOf_def nextID_def query_defs wrapInt_def minInt_def)

text \<open>
  C8, amended. When the query succeeds and every stored ID is an \<^verbatim>\<open>int\<close> below the
  greatest one, \<^verbatim>\<open>nextID\<close> returns the greatest stored ID plus one, and 0 for a store
  without proposals, with no error.
\<close>

theorem nextID_max_plus_one_below_maxInt:
  assumes "fault ds = None"
    and "\<forall>b \<in> set (stored ds). minInt \<le> ID b \<and> ID b < maxInt"
  shows "nextID ds = (if stored ds = [] then 0 else Max (ID ` set (stored ds)) + 1, None)"
proof (cases "stored ds = []")
  case True
  then show ?thesis
    using nextID_wrapped [OF assms(1)] by simp
next
  case False
  then have "Max (ID ` set (stored ds)) \<in> ID ` set (stored ds)"
    by (intro Max_in) simp_all
  then obtain b where "b \<in> set (stored ds)" and "Max (ID ` set (stored ds)) = ID b"
    by auto
  with assms(2) have "minInt \<le> Max (ID ` set (stored ds)) + 1"
    and "Max (ID ` set (stored ds)) + 1 \<le> maxInt"
    by auto
  then have "wrapInt (Max (ID ` set (stored ds)) + 1) = Max (ID ` set (stored ds)) + 1"
    by (rule wrapInt_in_range)
  with False show ?thesis
    using nextID_wrapped [OF assms(1)] by simp
qed

theorem nextID_max_plus_one_below_maxInt_witness:
  "fault (storeOf [3, 8, 5]) = None
   \<and> minInt \<le> 3 \<and> 8 < maxInt
   \<and> nextID (storeOf [3, 8, 5]) = (9, None)
   \<and> fault (storeOf []) = None \<and> nextID (storeOf []) = (0, None)"
  using nextID_max_plus_one_below_maxInt [of "storeOf [3, 8, 5]"]
    nextID_max_plus_one_below_maxInt [of "storeOf []"]
  by (simp add: storeOf_def minInt_def maxInt_def)

text \<open>
  C10. When the query succeeds, \<^verbatim>\<open>allBHAPs\<close> returns no error and a list that holds every
  stored proposal exactly once, in ascending order of ID; for a store without proposals
  it is the empty list with no error.
\<close>

theorem allBHAPs_all_sorted:
  "fault ds = None \<Longrightarrow>
   snd (allBHAPs ds) = None
   \<and> mset (fst (allBHAPs ds)) = mset (stored ds)
   \<and> sorted (map ID (fst (allBHAPs ds)))
   \<and> (stored ds = [] \<longrightarrow> allBHAPs ds = ([], None))"
  by (simp add: allBHAPs_def GetAll_ascending)

theorem allBHAPs_all_sorted_witness:
  "fault (storeOf [3, 8, 5]) = None
   \<and> allBHAPs (storeOf [3, 8, 5]) = (stored (storeOf [3, 5, 8]), None)
   \<and> fault (storeOf []) = None \<and> allBHAPs (storeOf []) = ([], None)"
  using allBHAPs_all_sorted [of "storeOf [3, 8, 5]"] allBHAPs_all_sorted [of "storeOf []"]
  by (simp add: storeOf_def allBHAPs_def GetAll_ascending)

end
